theory Spec2Isabelle
  imports Complex_Main "HOL-Library.Word" "HOL-Library.Log_Nat"
begin

section \<open>SuperPi: the two digit-computation engines\<close>

text \<open>
  The repository holds two programs. \<^verbatim>\<open>src/superpi.c\<close> computes \<open>\<pi>\<close> with Machin's
  formula and a Taylor series for the arctangent; \<^verbatim>\<open>src/src/superpi.c\<close> computes it with
  the Gauss-Legendre iteration. Both define a function \<^verbatim>\<open>calculate_pi_digits\<close>; they are
  embedded here as \<open>calculate_pi_digits_machin\<close> and \<open>calculate_pi_digits_gl\<close>.

  Both programs compute with the \<^verbatim>\<open>mpf_t\<close> floating-point numbers of the GNU MP library.
  The library is not part of the repository, so the operations the programs call are
  a parameter of the embedding: a record of functions over a type \<open>'v\<close> of numbers.
\<close>

subsection \<open>Constants of the programs\<close>

definition MAX_DIGITS :: "64 word" where
  "MAX_DIGITS = 10000000"

text \<open>The double-precision literals of the source, as the rational numbers they denote.\<close>

definition double_3_322 :: rat where
  "double_3_322 = 3740239490531197 / 2 ^ 50"

definition double_1e_50 :: rat where
  "double_1e_50 = 8424983333484575 / 2 ^ 219"

definition double_0_25 :: rat where
  "double_0_25 = 1 / 4"

subsection \<open>The arithmetic provider\<close>

text \<open>
  Every \<^verbatim>\<open>mpf_t\<close> variable of one call is initialised after the call has set the default
  precision, so all of them carry that precision; the operations take it as their first
  argument. \<open>gmp_Ff n x\<close> is the text that the format \<^verbatim>\<open>%.*Ff\<close> produces for \<open>x\<close> with
  \<open>n\<close> digits after the decimal point.
\<close>

record 'v provider =
  mpf_set_ui :: "nat \<Rightarrow> nat \<Rightarrow> 'v"
  mpf_set_d :: "nat \<Rightarrow> rat \<Rightarrow> 'v"
  mpf_add :: "nat \<Rightarrow> 'v \<Rightarrow> 'v \<Rightarrow> 'v"
  mpf_sub :: "nat \<Rightarrow> 'v \<Rightarrow> 'v \<Rightarrow> 'v"
  mpf_mul :: "nat \<Rightarrow> 'v \<Rightarrow> 'v \<Rightarrow> 'v"
  mpf_div :: "nat \<Rightarrow> 'v \<Rightarrow> 'v \<Rightarrow> 'v"
  mpf_mul_ui :: "nat \<Rightarrow> 'v \<Rightarrow> nat \<Rightarrow> 'v"
  mpf_div_ui :: "nat \<Rightarrow> 'v \<Rightarrow> nat \<Rightarrow> 'v"
  mpf_sqrt :: "nat \<Rightarrow> 'v \<Rightarrow> 'v"
  mpf_abs :: "nat \<Rightarrow> 'v \<Rightarrow> 'v"
  mpf_cmp_d :: "'v \<Rightarrow> rat \<Rightarrow> int"
  gmp_Ff :: "nat \<Rightarrow> 'v \<Rightarrow> string"

subsection \<open>Decimal text\<close>

text \<open>
  The text of a fixed-point decimal number: \<open>fixed_point_text n k\<close> writes the number
  \<open>k / 10 ^ n\<close> with a sign if it is negative, its integer part, a decimal point and
  exactly \<open>n\<close> digits.
\<close>

definition digit_char :: "nat \<Rightarrow> char" where
  "digit_char d = char_of (48 + d)"

fun dec_digits :: "nat \<Rightarrow> nat \<Rightarrow> string" where
  "dec_digits 0 m = []"
| "dec_digits (Suc n) m = dec_digits n (m div 10) @ [digit_char (m mod 10)]"

fun dec_nat :: "nat \<Rightarrow> string" where
  "dec_nat m = (if m < 10 then [digit_char m] else dec_nat (m div 10) @ [digit_char (m mod 10)])"

definition fixed_point_text :: "nat \<Rightarrow> int \<Rightarrow> string" where
  "fixed_point_text n k =
     (if k < 0 then ''-'' else []) @ dec_nat (nat \<bar>k\<bar> div 10 ^ n) @ ''.''
       @ dec_digits n (nat \<bar>k\<bar> mod 10 ^ n)"

definition is_digit :: "char \<Rightarrow> bool" where
  "is_digit c \<longleftrightarrow> c \<in> set ''0123456789''"

subsection \<open>An exact provider\<close>

text \<open>
  The provider that computes with real numbers and no rounding at all, whatever the
  precision asked for, and prints a number rounded to the nearest decimal of the
  requested length. It is the reference against which the accuracy of a provider is
  stated below, and the concrete provider of the closed theorems.
\<close>

definition ideal :: "real provider" where
  "ideal =
     \<lparr>mpf_set_ui = (\<lambda>P n. real n),
      mpf_set_d = (\<lambda>P d. of_rat d),
      mpf_add = (\<lambda>P x y. x + y),
      mpf_sub = (\<lambda>P x y. x - y),
      mpf_mul = (\<lambda>P x y. x * y),
      mpf_div = (\<lambda>P x y. x / y),
      mpf_mul_ui = (\<lambda>P x n. x * real n),
      mpf_div_ui = (\<lambda>P x n. x / real n),
      mpf_sqrt = (\<lambda>P x. sqrt x),
      mpf_abs = (\<lambda>P x. \<bar>x\<bar>),
      mpf_cmp_d = (\<lambda>x d. if x < of_rat d then - 1 else if x = of_rat d then 0 else 1),
      gmp_Ff = (\<lambda>n x. fixed_point_text n (round (x * 10 ^ n)))\<rparr>"

definition no_signal :: "nat \<Rightarrow> bool" where
  "no_signal k = False"

subsection \<open>The working precision\<close>

text \<open>
  \<^verbatim>\<open>mpf_set_default_prec(digits * 3.322 + 10000)\<close>: the product and the sum are computed
  in double precision and the result is converted to an unsigned integer, which
  truncates. \<open>round_double\<close> rounds a rational number to the nearest number with a
  53-bit significand, ties to even (the exponent range of the format is not modelled:
  the numbers of this program are far inside it).
\<close>

definition binade :: "rat \<Rightarrow> int" where
  "binade x = (if 1 \<le> x then bitlen \<lfloor>x\<rfloor> - 1 else - bitlen (\<lceil>1 / x\<rceil> - 1))"

definition pow2 :: "int \<Rightarrow> rat" where
  "pow2 e = (if 0 \<le> e then 2 ^ nat e else 1 / 2 ^ nat (- e))"

definition round_even :: "rat \<Rightarrow> int" where
  "round_even q =
     (let n = \<lfloor>q\<rfloor>; r = q - of_int n
      in if r < 1 / 2 then n else if 1 / 2 < r then n + 1 else if even n then n else n + 1)"

definition round_double :: "rat \<Rightarrow> rat" where
  "round_double x =
     (if x = 0 then 0
      else let ulp = pow2 (binade \<bar>x\<bar> - 52)
           in sgn x * of_int (round_even (\<bar>x\<bar> / ulp)) * ulp)"

definition mpf_prec_bits :: "64 word \<Rightarrow> nat" where
  "mpf_prec_bits digits =
     nat \<lfloor>round_double (round_double (round_double (of_nat (unat digits)) * double_3_322) + 10000)\<rfloor>"

subsection \<open>The series kernel (\<^verbatim>\<open>src/superpi.c\<close>)\<close>

text \<open>
  One pass of the body of the summation loop, for the term index \<open>i\<close>. The loop state is
  the running sum and the power accumulator; \<^verbatim>\<open>temp\<close> is written before it is read in
  every pass.
\<close>

definition arctan_step :: "'v provider \<Rightarrow> nat \<Rightarrow> 'v \<Rightarrow> nat \<Rightarrow> 'v \<times> 'v \<Rightarrow> 'v \<times> 'v" where
  "arctan_step pr P x i s =
     (case s of (sum0, x_pow) \<Rightarrow>
        let temp = mpf_div_ui pr P x_pow (2 * i + 1);
            sum1 = (if i mod 2 = 0 then mpf_add pr P sum0 temp else mpf_sub pr P sum0 temp);
            temp = mpf_mul pr P x_pow x;
            x_pow = mpf_mul pr P temp x
        in (sum1, x_pow))"

text \<open>\<^verbatim>\<open>for (i = 0; i < n; i++)\<close> around that body, from \<open>sum = 0\<close> and \<open>x_pow = x\<close>.\<close>

definition arctan_loop :: "'v provider \<Rightarrow> nat \<Rightarrow> 'v \<Rightarrow> nat \<Rightarrow> 'v \<times> 'v" where
  "arctan_loop pr P x n = fold (arctan_step pr P x) [0..<n] (mpf_set_ui pr P 0, x)"

definition machin_pi :: "'v provider \<Rightarrow> nat \<Rightarrow> nat \<Rightarrow> 'v" where
  "machin_pi pr P digits =
     (let x1 = mpf_set_ui pr P 1;
          x1 = mpf_div_ui pr P x1 5;
          x2 = mpf_set_ui pr P 1;
          x2 = mpf_div_ui pr P x2 239;
          sum1 = fst (arctan_loop pr P x1 (digits + 1000));
          term1 = mpf_mul_ui pr P sum1 4;
          sum2 = fst (arctan_loop pr P x2 (digits + 1000));
          term2 = sum2;
          pi0 = mpf_sub pr P term1 term2;
          pi0 = mpf_mul_ui pr P pi0 4
      in pi0)"

subsection \<open>The iterative kernel (\<^verbatim>\<open>src/src/superpi.c\<close>)\<close>

text \<open>
  The state of the \<^verbatim>\<open>while (1)\<close> loop: the four numbers, the round counter and the
  global flag \<^verbatim>\<open>keep_running\<close>. The flag is written by the signal handler only; to let
  an interrupt arrive while the loop runs, the loop takes a schedule \<open>sigint\<close> that says
  in which rounds the handler runs.
\<close>

definition SIGINT :: int where
  "SIGINT = 2"

definition signal_handler :: "int \<Rightarrow> int \<Rightarrow> int" where
  "signal_handler sig keep_running = (if sig = SIGINT then 0 else keep_running)"

record 'v gl_state =
  gl_a :: 'v
  gl_b :: 'v
  gl_t :: 'v
  gl_p :: 'v
  iterations :: nat
  keep_running :: int

record 'v gl_round_result =
  a_next :: 'v
  b_next :: 'v
  t_next :: 'v
  p_next :: 'v
  diff :: 'v

text \<open>The arithmetic of one round, up to the absolute difference that is tested.\<close>

definition gl_round :: "'v provider \<Rightarrow> nat \<Rightarrow> 'v gl_state \<Rightarrow> 'v gl_round_result" where
  "gl_round pr P s =
     (let temp1 = mpf_add pr P (gl_a s) (gl_b s);
          an = mpf_div_ui pr P temp1 2;
          temp1 = mpf_mul pr P (gl_a s) (gl_b s);
          bn = mpf_sqrt pr P temp1;
          temp1 = mpf_sub pr P an (gl_a s);
          temp2 = mpf_mul pr P temp1 temp1;
          temp1 = mpf_mul pr P (gl_p s) temp2;
          tn = mpf_sub pr P (gl_t s) temp1;
          p = mpf_mul_ui pr P (gl_p s) 2;
          temp1 = mpf_sub pr P an bn;
          temp1 = mpf_abs pr P temp1
      in \<lparr>a_next = an, b_next = bn, t_next = tn, p_next = p, diff = temp1\<rparr>)"

text \<open>
  The loop. Entering a round counts it (\<^verbatim>\<open>iterations++\<close>) and lets the handler run if
  an interrupt is scheduled for that round. On \<^verbatim>\<open>break\<close> the variables \<open>a\<close>, \<open>b\<close>, \<open>t\<close> keep the values they had when the
  round began (the assignments from \<open>a_next\<close>, \<open>b_next\<close>, \<open>t_next\<close> come after the test),
  while \<open>p\<close> is already doubled. The progress lines that the loop prints every tenth
  round go to the standard output and depend on the clock; they do not touch the
  numbers and are left out. A loop that never leaves is the value \<open>None\<close>.
\<close>

definition gl_enter :: "(nat \<Rightarrow> bool) \<Rightarrow> 'v gl_state \<Rightarrow> 'v gl_state" where
  "gl_enter sigint s =
     (let s = s\<lparr>iterations := iterations s + 1\<rparr>
      in if sigint (iterations s)
         then s\<lparr>keep_running := signal_handler SIGINT (keep_running s)\<rparr> else s)"

partial_function (option) gl_loop ::
  "'v provider \<Rightarrow> nat \<Rightarrow> (nat \<Rightarrow> bool) \<Rightarrow> 'v gl_state \<Rightarrow> 'v gl_state option" where
  "gl_loop pr P sigint s =
     (let s = gl_enter sigint s;
          r = gl_round pr P s
      in if mpf_cmp_d pr (diff r) double_1e_50 < 0
         then Some (s\<lparr>gl_p := p_next r\<rparr>)
         else gl_loop pr P sigint
                (s\<lparr>gl_a := a_next r, gl_b := b_next r, gl_t := t_next r, gl_p := p_next r\<rparr>))"

definition gl_init :: "'v provider \<Rightarrow> nat \<Rightarrow> int \<Rightarrow> 'v gl_state" where
  "gl_init pr P kr =
     (let a = mpf_set_ui pr P 1;
          temp1 = mpf_set_ui pr P 2;
          b = mpf_sqrt pr P temp1;
          b = mpf_div_ui pr P b 2;
          p = mpf_set_ui pr P 1;
          t = mpf_set_d pr P double_0_25
      in \<lparr>gl_a = a, gl_b = b, gl_t = t, gl_p = p, iterations = 0, keep_running = kr\<rparr>)"

definition gl_final :: "'v provider \<Rightarrow> nat \<Rightarrow> 'v gl_state \<Rightarrow> 'v" where
  "gl_final pr P s =
     (let temp1 = mpf_add pr P (gl_a s) (gl_b s);
          temp2 = mpf_mul pr P temp1 temp1;
          temp1 = mpf_mul_ui pr P (gl_t s) 4
      in mpf_div pr P temp2 temp1)"

subsection \<open>Turning the number into the digit string\<close>

text \<open>
  \<^verbatim>\<open>gmp_snprintf\<close> writes at most \<open>n - 1\<close> characters for a buffer of \<open>n\<close> bytes. Then the text after the first
  decimal point is moved to the front of the buffer and a terminator is stored at
  index \<open>digits\<close>; without a decimal point the buffer stays as it is.
\<close>

definition gmp_snprintf :: "nat \<Rightarrow> string \<Rightarrow> string" where
  "gmp_snprintf n text = take (n - 1) text"

definition strip_and_truncate :: "nat \<Rightarrow> string \<Rightarrow> string" where
  "strip_and_truncate digits buf =
     (case dropWhile (\<lambda>c. c \<noteq> CHR ''.'') buf of
        [] \<Rightarrow> buf
      | dot # rest \<Rightarrow> take digits rest)"

definition pi_to_string :: "'v provider \<Rightarrow> nat \<Rightarrow> 'v \<Rightarrow> string" where
  "pi_to_string pr digits pi0 =
     strip_and_truncate digits (gmp_snprintf (digits + 10) (gmp_Ff pr (digits + 1) pi0))"

subsection \<open>The two entry points\<close>

text \<open>
  What a call does besides computing: it sets the default precision, initialises and
  clears \<^verbatim>\<open>mpf_t\<close> variables and asks for the output buffer. These actions are recorded
  in program order. The out-parameter \<^verbatim>\<open>char **result\<close> is \<open>None\<close> for a null pointer
  and \<open>Some c\<close> for a pointer to a cell that holds \<open>c\<close> (\<open>None\<close> for a null string).
\<close>

datatype event =
  SetDefaultPrec nat
| MpfInit string
| MpfClear string
| Malloc nat bool

record call_result =
  ret :: "64 word"
  out :: "string option option"
  events :: "event list"

definition machin_vars :: "string list" where
  "machin_vars = [''pi'', ''term1'', ''term2'', ''sum'', ''x1'', ''x2'', ''x1_pow'', ''x2_pow'', ''temp'']"

definition gl_vars :: "string list" where
  "gl_vars = [''a'', ''b'', ''t'', ''p'', ''a_next'', ''b_next'', ''t_next'', ''pi'', ''temp1'', ''temp2'']"

definition calculate_pi_digits_machin ::
  "'v provider \<Rightarrow> bool \<Rightarrow> 64 word \<Rightarrow> string option option \<Rightarrow> call_result" where
  "calculate_pi_digits_machin pr malloc_ok digits result =
     (if result = None \<or> digits \<le> 0 \<or> digits > MAX_DIGITS
      then \<lparr>ret = 0, out = result, events = []\<rparr>
      else
        let P = mpf_prec_bits digits;
            pi0 = machin_pi pr P (unat digits);
            start = SetDefaultPrec P # map MpfInit machin_vars
        in if \<not> malloc_ok
           then \<lparr>ret = 0, out = Some None,
                 events = start @ [Malloc (unat digits + 10) False] @ map MpfClear machin_vars\<rparr>
           else \<lparr>ret = digits, out = Some (Some (pi_to_string pr (unat digits) pi0)),
                 events = start @ [Malloc (unat digits + 10) True] @ map MpfClear machin_vars\<rparr>)"

text \<open>
  The iterative variant also returns the value of \<^verbatim>\<open>keep_running\<close> at the end of the
  call, for the caller's loop.
\<close>

definition calculate_pi_digits_gl ::
  "'v provider \<Rightarrow> (nat \<Rightarrow> bool) \<Rightarrow> bool \<Rightarrow> 64 word \<Rightarrow> string option option \<Rightarrow> int
     \<Rightarrow> (call_result \<times> int) option" where
  "calculate_pi_digits_gl pr sigint malloc_ok digits result kr =
     (if result = None \<or> digits \<le> 0 \<or> digits > MAX_DIGITS
      then Some (\<lparr>ret = 0, out = result, events = []\<rparr>, kr)
      else
        let P = mpf_prec_bits digits;
            start = SetDefaultPrec P # map MpfInit gl_vars
        in case gl_loop pr P sigint (gl_init pr P kr) of
             None \<Rightarrow> None
           | Some s \<Rightarrow>
               let pi0 = gl_final pr P s
               in if \<not> malloc_ok
                  then Some (\<lparr>ret = 0, out = Some None,
                        events = start @ [Malloc (unat digits + 10) False] @ map MpfClear gl_vars\<rparr>,
                        keep_running s)
                  else Some (\<lparr>ret = digits, out = Some (Some (pi_to_string pr (unat digits) pi0)),
                        events = start @ [Malloc (unat digits + 10) True] @ map MpfClear gl_vars\<rparr>,
                        keep_running s))"

subsection \<open>The caller's loop of the iterative program\<close>

text \<open>
  What \<^verbatim>\<open>main\<close> makes of a finished call. In the mode that keeps computing
  (\<^verbatim>\<open>--keep\<close>) it tests the flag after the call; in the single-shot mode it does not.
\<close>

datatype report = Saved string "64 word" | Interrupted | Failed

definition keep_mode_report :: "call_result \<times> int \<Rightarrow> report" where
  "keep_mode_report r =
     (case r of (c, kr) \<Rightarrow>
        (case out c of
           Some (Some pi_result) \<Rightarrow>
             if ret c > 0 \<and> kr \<noteq> 0 then Saved pi_result (ret c)
             else if kr = 0 then Interrupted else Failed
         | _ \<Rightarrow> if kr = 0 then Interrupted else Failed))"

definition single_mode_report :: "call_result \<times> int \<Rightarrow> report" where
  "single_mode_report r =
     (case r of (c, kr) \<Rightarrow>
        (case out c of
           Some (Some pi_result) \<Rightarrow> if ret c > 0 then Saved pi_result (ret c) else Failed
         | _ \<Rightarrow> Failed))"

subsection \<open>Accounting for the numbers a call acquires\<close>

text \<open>
  \<open>track es live\<close> replays a record of actions over the list of the variables that are
  initialised and not yet cleared. It fails on initialising a live variable and on
  clearing a variable that is not live; otherwise it returns the variables still live
  at the end.
\<close>

fun track :: "event list \<Rightarrow> string list \<Rightarrow> string list option" where
  "track [] live = Some live"
| "track (MpfInit v # es) live = (if v \<in> set live then None else track es (v # live))"
| "track (MpfClear v # es) live = (if v \<in> set live then track es (removeAll v live) else None)"
| "track (SetDefaultPrec n # es) live = track es live"
| "track (Malloc n ok # es) live = track es live"

definition inits :: "event list \<Rightarrow> string list" where
  "inits es = concat (map (\<lambda>e. case e of MpfInit v \<Rightarrow> [v] | _ \<Rightarrow> []) es)"

definition clears :: "event list \<Rightarrow> string list" where
  "clears es = concat (map (\<lambda>e. case e of MpfClear v \<Rightarrow> [v] | _ \<Rightarrow> []) es)"

subsection \<open>The formulas of the specification\<close>

text \<open>
  The partial sum of the Taylor series of the arctangent with \<open>n\<close> terms, the term of
  index \<open>i\<close> being \<open>(-1)^i x^(2i+1) / (2i+1)\<close>.
\<close>

definition arctan_taylor :: "real \<Rightarrow> nat \<Rightarrow> real" where
  "arctan_taylor x n = (\<Sum>i<n. (- 1) ^ i * x ^ (2 * i + 1) / real (2 * i + 1))"

text \<open>
  The sequence of the iterative method: \<open>a\<^sub>0 = 1\<close>, \<open>b\<^sub>0 = 1/\<surd>2\<close>, \<open>t\<^sub>0 = 1/4\<close>, \<open>p\<^sub>0 = 1\<close> and
  \<open>a' = (a + b)/2\<close>, \<open>b' = \<surd>(a b)\<close>, \<open>t' = t - p (a' - a)\<^sup>2\<close>, \<open>p' = 2 p\<close>.
\<close>

fun gl_seq :: "nat \<Rightarrow> real \<times> real \<times> real \<times> real" where
  "gl_seq 0 = (1, 1 / sqrt 2, 1 / 4, 1)"
| "gl_seq (Suc n) =
     (case gl_seq n of (a, b, t, p) \<Rightarrow>
        let a' = (a + b) / 2
        in (a', sqrt (a * b), t - p * (a' - a)\<^sup>2, 2 * p))"

definition seq_a :: "nat \<Rightarrow> real" where
  "seq_a n = (case gl_seq n of (a, b, t, p) \<Rightarrow> a)"

definition seq_b :: "nat \<Rightarrow> real" where
  "seq_b n = (case gl_seq n of (a, b, t, p) \<Rightarrow> b)"

definition seq_t :: "nat \<Rightarrow> real" where
  "seq_t n = (case gl_seq n of (a, b, t, p) \<Rightarrow> t)"

definition seq_p :: "nat \<Rightarrow> real" where
  "seq_p n = (case gl_seq n of (a, b, t, p) \<Rightarrow> p)"

text \<open>The convergence test of the source, on that sequence.\<close>

definition converged :: "nat \<Rightarrow> bool" where
  "converged n \<longleftrightarrow> \<bar>seq_a n - seq_b n\<bar> < real_of_rat double_1e_50"

subsection \<open>What is asked of a provider\<close>

text \<open>
  A provider is accurate at the precision \<open>P\<close>, for a reading \<open>val\<close> of its numbers as
  real numbers, when small integers and doubles are stored exactly, the absolute value
  and the comparison are exact, the other operations are within \<open>eps P\<close> of the exact
  result as long as the operands are at most 100 in magnitude, and the printed text is
  a decimal of the requested length within one unit in the last place of the number.
\<close>

definition eps :: "nat \<Rightarrow> real" where
  "eps P = 1 / 2 ^ (P - 16)"

definition accurate :: "'v provider \<Rightarrow> ('v \<Rightarrow> real) \<Rightarrow> nat \<Rightarrow> bool" where
  "accurate pr val P \<longleftrightarrow>
     (\<forall>n. n \<le> 100 \<longrightarrow> val (mpf_set_ui pr P n) = real n)
   \<and> (\<forall>d. val (mpf_set_d pr P d) = real_of_rat d)
   \<and> (\<forall>x y. \<bar>val x\<bar> \<le> 100 \<longrightarrow> \<bar>val y\<bar> \<le> 100 \<longrightarrow>
          \<bar>val (mpf_add pr P x y) - (val x + val y)\<bar> \<le> eps P)
   \<and> (\<forall>x y. \<bar>val x\<bar> \<le> 100 \<longrightarrow> \<bar>val y\<bar> \<le> 100 \<longrightarrow>
          \<bar>val (mpf_sub pr P x y) - (val x - val y)\<bar> \<le> eps P)
   \<and> (\<forall>x y. \<bar>val x\<bar> \<le> 100 \<longrightarrow> \<bar>val y\<bar> \<le> 100 \<longrightarrow>
          \<bar>val (mpf_mul pr P x y) - val x * val y\<bar> \<le> eps P)
   \<and> (\<forall>x y. \<bar>val x\<bar> \<le> 100 \<longrightarrow> 1 / 100 \<le> \<bar>val y\<bar> \<longrightarrow> \<bar>val y\<bar> \<le> 100 \<longrightarrow>
          \<bar>val (mpf_div pr P x y) - val x / val y\<bar> \<le> eps P)
   \<and> (\<forall>x n. \<bar>val x\<bar> \<le> 100 \<longrightarrow> n \<le> 100 \<longrightarrow>
          \<bar>val (mpf_mul_ui pr P x n) - val x * real n\<bar> \<le> eps P)
   \<and> (\<forall>x n. \<bar>val x\<bar> \<le> 100 \<longrightarrow> 0 < n \<longrightarrow>
          \<bar>val (mpf_div_ui pr P x n) - val x / real n\<bar> \<le> eps P)
   \<and> (\<forall>x. 0 \<le> val x \<longrightarrow> val x \<le> 100 \<longrightarrow>
          \<bar>val (mpf_sqrt pr P x) - sqrt (val x)\<bar> \<le> eps P)
   \<and> (\<forall>x. val (mpf_abs pr P x) = \<bar>val x\<bar>)
   \<and> (\<forall>x d. (mpf_cmp_d pr x d < 0) = (val x < real_of_rat d))
   \<and> (\<forall>n x. \<exists>k. gmp_Ff pr n x = fixed_point_text n k
          \<and> \<bar>real_of_int k / 10 ^ n - val x\<bar> \<le> 1 / 10 ^ n)"

text \<open>The state after a round that does not leave the loop, and after the one that does.\<close>

definition gl_next :: "'v provider \<Rightarrow> nat \<Rightarrow> (nat \<Rightarrow> bool) \<Rightarrow> 'v gl_state \<Rightarrow> 'v gl_state" where
  "gl_next pr P sigint s =
     (let s = gl_enter sigint s;
          r = gl_round pr P s
      in s\<lparr>gl_a := a_next r, gl_b := b_next r, gl_t := t_next r, gl_p := p_next r\<rparr>)"

definition gl_stop :: "'v provider \<Rightarrow> nat \<Rightarrow> (nat \<Rightarrow> bool) \<Rightarrow> 'v gl_state \<Rightarrow> 'v gl_state" where
  "gl_stop pr P sigint s =
     (let s = gl_enter sigint s;
          r = gl_round pr P s
      in s\<lparr>gl_p := p_next r\<rparr>)"

subsection \<open>Decimal enclosures\<close>

text \<open>
  Numbers are enclosed between decimals with 100 places, written as integers over
  \<open>scale\<close>. \<open>in_box\<close> encloses the four numbers of a loop state.
\<close>

definition scale :: int where
  "scale = 10 ^ 100"

definition between :: "int \<Rightarrow> int \<Rightarrow> real \<Rightarrow> bool" where
  "between lo hi x \<longleftrightarrow> real_of_int lo / real_of_int scale \<le> x \<and> x \<le> real_of_int hi / real_of_int scale"

definition in_box ::
  "('v \<Rightarrow> real) \<Rightarrow> 'v gl_state \<Rightarrow> int \<Rightarrow> int \<Rightarrow> int \<Rightarrow> int \<Rightarrow> int \<Rightarrow> int \<Rightarrow> int \<Rightarrow> int \<Rightarrow> bool" where
  "in_box val s Al Ah Bl Bh Tl Th Pl Ph \<longleftrightarrow>
     between Al Ah (val (gl_a s)) \<and> between Bl Bh (val (gl_b s))
   \<and> between Tl Th (val (gl_t s)) \<and> between Pl Ph (val (gl_p s))"

section \<open>Rejected calls\<close>

text \<open>
  C8. For a digit count of 0 or above \<^verbatim>\<open>MAX_DIGITS\<close> = 10,000,000, both variants return 0
  and do nothing else: no default precision is set, no number is initialised, no buffer
  is requested, and the caller's cell is left as it was.
\<close>

theorem invalid_digit_count_rejected:
  assumes "digits = 0 \<or> digits > MAX_DIGITS"
  shows "calculate_pi_digits_machin pr mok digits result = \<lparr>ret = 0, out = result, events = []\<rparr>
       \<and> calculate_pi_digits_gl pr sigint mok digits result kr
           = Some (\<lparr>ret = 0, out = result, events = []\<rparr>, kr)"
  using assms by (auto simp: calculate_pi_digits_machin_def calculate_pi_digits_gl_def)

theorem invalid_digit_count_rejected_witness:
  "calculate_pi_digits_machin ideal True 0 (Some None) = \<lparr>ret = 0, out = Some None, events = []\<rparr>
   \<and> calculate_pi_digits_gl ideal no_signal True 0 (Some None) 1
       = Some (\<lparr>ret = 0, out = Some None, events = []\<rparr>, 1)
   \<and> calculate_pi_digits_machin ideal True 10000001 (Some None)
       = \<lparr>ret = 0, out = Some None, events = []\<rparr>
   \<and> calculate_pi_digits_gl ideal no_signal True 10000001 (Some None) 1
       = Some (\<lparr>ret = 0, out = Some None, events = []\<rparr>, 1)"
proof -
  have big: "(10000001 :: 64 word) > MAX_DIGITS"
    by (simp add: MAX_DIGITS_def)
  show ?thesis
    using invalid_digit_count_rejected [of 0 ideal True "Some None" no_signal 1]
          invalid_digit_count_rejected [of 10000001 ideal True "Some None" no_signal 1] big
    by simp
qed

text \<open>
  C10. With a null out-pointer both variants return 0 whatever the digit count, and
  nothing is done: the record of actions is empty.
\<close>

theorem null_result_pointer_rejected:
  "calculate_pi_digits_machin pr mok digits None = \<lparr>ret = 0, out = None, events = []\<rparr>
   \<and> calculate_pi_digits_gl pr sigint mok digits None kr
       = Some (\<lparr>ret = 0, out = None, events = []\<rparr>, kr)"
  by (simp add: calculate_pi_digits_machin_def calculate_pi_digits_gl_def)

end
